theory Spec2Isabelle
  imports Complex_Main
begin

section \<open>Exceptions\<close>

text \<open>
  Of an exception the source uses two things: whether \<^verbatim>\<open>except Exception\<close> catches
  it, and its text (\<^verbatim>\<open>f"An error occurred: {e}"\<close>). An \<open>Exception\<close> is an
  instance of that class; a \<open>BaseException\<close> is one that is not
  (\<^verbatim>\<open>KeyboardInterrupt\<close>, \<^verbatim>\<open>SystemExit\<close>, \<^verbatim>\<open>asyncio.CancelledError\<close>). The texts
  of the interpreter's own exceptions are abridged.
\<close>

datatype exn = Exception string | BaseException string

fun is_Exception :: "exn \<Rightarrow> bool" where
  "is_Exception (Exception _) = True"
| "is_Exception (BaseException _) = False"

fun str_of :: "exn \<Rightarrow> string" where
  "str_of (Exception s) = s"
| "str_of (BaseException s) = s"

section \<open>Output segmenter: \<open>split_message\<close>\<close>

text \<open>
  \<open>range(start, stop, step)\<close>: the ascending and the descending enumeration, and the
  \<open>ValueError\<close> that a zero step raises.
\<close>

function range_up :: "int \<Rightarrow> int \<Rightarrow> int \<Rightarrow> int list" where
  "range_up i stop step =
     (if 0 < step \<and> i < stop then i # range_up (i + step) stop step else [])"
  by pat_completeness auto
termination
  by (relation "measure (\<lambda>(i, stop, step). nat (stop - i))") auto

function range_down :: "int \<Rightarrow> int \<Rightarrow> int \<Rightarrow> int list" where
  "range_down i stop step =
     (if step < 0 \<and> stop < i then i # range_down (i + step) stop step else [])"
  by pat_completeness auto
termination
  by (relation "measure (\<lambda>(i, stop, step). nat (i - stop))") auto

declare range_up.simps [simp del]
declare range_down.simps [simp del]

definition py_range :: "int \<Rightarrow> int \<Rightarrow> int \<Rightarrow> exn + int list" where
  "py_range start stop step =
     (if step = 0 then Inl (Exception ''range() arg 3 must not be zero'')
      else if 0 < step then Inr (range_up start stop step)
      else Inr (range_down start stop step))"

text \<open>
  \<open>xs[i:j]\<close>: a negative bound counts from the end, and every bound is clipped to
  the sequence, so a slice never raises.
\<close>

definition slice_bound :: "nat \<Rightarrow> int \<Rightarrow> nat" where
  "slice_bound n k = (if k < 0 then nat (max 0 (int n + k)) else min (nat k) n)"

definition py_slice :: "'a list \<Rightarrow> int \<Rightarrow> int \<Rightarrow> 'a list" where
  "py_slice xs i j =
     (let lo = slice_bound (length xs) i; hi = slice_bound (length xs) j
      in take (hi - lo) (drop lo xs))"

text \<open>
  \<^verbatim>\<open>return [content[i:i+limit] for i in range(0, len(content), limit)]\<close>

  The text is a sequence of code points of any type \<open>'a\<close>; the segmenter only counts
  and slices them.
\<close>

definition split_message :: "'a list \<Rightarrow> int \<Rightarrow> exn + 'a list list" where
  "split_message content limit =
     (case py_range 0 (int (length content)) limit of
        Inl e \<Rightarrow> Inl e
      | Inr starts \<Rightarrow> Inr (map (\<lambda>i. py_slice content i (i + limit)) starts))"


section \<open>Configuration, events and per-user state\<close>

type_synonym user_id = nat
type_synonym channel_id = nat
type_synonym role = nat

text \<open>
  A \<open>datetime\<close> is the number of microseconds since \<open>datetime.min\<close>, a
  \<open>timedelta\<close> a number of microseconds: the resolution of Python's own types, so that
  subtraction and comparison are those of the integers.
\<close>

type_synonym datetime = int
type_synonym timedelta = int

definition datetime_min :: datetime where
  "datetime_min = 0"

definition timedelta_seconds :: "int \<Rightarrow> timedelta" where
  "timedelta_seconds s = s * 1000000"

text \<open>A cached turn is the pair \<open>(role, content)\<close> that the source appends to the deque.\<close>

type_synonym turn = "string \<times> string"

text \<open>
  The module-level configuration, read once from the environment and from
  \<^verbatim>\<open>system_message.txt\<close>. \<open>MAX_CACHE\<close> and \<open>COOLDOWN_TIME\<close> are whatever
  \<^verbatim>\<open>int(os.environ.get(...))\<close> yields: any integer.
\<close>

record config =
  OPENAI_MODEL :: string
  MAX_CACHE :: int
  COOLDOWN_TIME :: int
  ROLE_ID :: nat
  SYSTEM_MESSAGE :: string
  bot_user_id :: user_id

text \<open>
  What \<^verbatim>\<open>message.reference.resolved\<close> can be when the message is a reply: \<open>None\<close>
  when the platform did not resolve the message replied to, and otherwise that message,
  of which the source reads the author's id, or the marker of a deleted message, which
  has no author.
\<close>

datatype referenced = Message_of user_id | Deleted_message

text \<open>
  What \<open>on_message\<close> reads of a message. \<open>mentions\<close> holds the ids of the mentioned
  users. \<open>reference\<close> is \<open>None\<close> when \<^verbatim>\<open>message.reference\<close> is, and otherwise
  holds \<^verbatim>\<open>message.reference.resolved\<close>. \<open>guild_get_role\<close> is
  \<^verbatim>\<open>message.guild.get_role\<close>; the message was sent in a guild by a member, so that
  the guild and the author's roles exist.
\<close>

record message =
  author_bot :: bool
  author_id :: user_id
  author_roles :: "role list"
  mentions :: "user_id list"
  reference :: "referenced option option"
  channel_id :: channel_id
  content :: string
  guild_get_role :: "nat \<Rightarrow> role option"

record last_inter =
  time :: datetime
  channel :: "channel_id option"

text \<open>
  The three \<^verbatim>\<open>defaultdict\<close>s. The source only ever subscripts them, so each is a
  total function that starts at the factory's default: \<^verbatim>\<open>deque()\<close>, \<^verbatim>\<open>int()\<close> and
  \<^verbatim>\<open>{"time": datetime.min, "channel": None}\<close>.
\<close>

record bot_state =
  user_message_cache :: "user_id \<Rightarrow> turn list"
  user_cooldown :: "user_id \<Rightarrow> int"
  user_last_interaction :: "user_id \<Rightarrow> last_inter"

definition initial_state :: bot_state where
  "initial_state =
     \<lparr>user_message_cache = (\<lambda>_. []),
      user_cooldown = (\<lambda>_. 0),
      user_last_interaction = (\<lambda>_. \<lparr>time = datetime_min, channel = None\<rparr>)\<rparr>"

section \<open>The collaborators\<close>

text \<open>
  What the completion call gives back: the call raises (\<open>Raises\<close>), or it returns a
  response from which lines 105-106 cannot read a text (\<open>Unreadable\<close>: no choice, or a
  content that is \<^verbatim>\<open>None\<close>), or it returns the text.
\<close>

datatype completion = Raises exn | Unreadable exn | Text string


fun is_text :: "completion \<Rightarrow> bool" where
  "is_text (Text _) = True"
| "is_text _ = False"

text \<open>
  Everything outside the program, for the handling of one message: the two readings of
  \<^verbatim>\<open>datetime.utcnow()\<close> (line 62 and line 75), the order of the platform's roles
  (\<^verbatim>\<open>r >= role\<close>), the completion service, and whether a \<^verbatim>\<open>channel.send\<close> raises.
\<close>

record env =
  utcnow_route :: datetime
  utcnow_commit :: datetime
  role_ge :: "role \<Rightarrow> role \<Rightarrow> bool"
  ChatCompletion_create :: "string \<Rightarrow> turn list \<Rightarrow> completion"
  send_raises :: "channel_id \<Rightarrow> string \<Rightarrow> exn option"

text \<open>
  \<open>cooldown_user\<close> is a coroutine that sleeps and then clears the user's cooldown. A
  sleeper is that coroutine suspended in \<^verbatim>\<open>asyncio.sleep\<close>, with the seconds it still
  has to sleep.
\<close>

record sleeper =
  sleep_left :: int
  sleeper_user :: user_id

datatype task = Keep_typing channel_id | Cooldown sleeper

text \<open>The effects of a handler, in the order the source performs them.\<close>

datatype action =
    Send channel_id string
  | Create_task task
  | Cancel_typing
  | Completion_request string "turn list"
  | Log_error string

fun is_request :: "action \<Rightarrow> bool" where
  "is_request (Completion_request _ _) = True"
| "is_request _ = False"




section \<open>Sending a reply: \<open>send_large_message\<close>\<close>

fun send_chunks :: "env \<Rightarrow> channel_id \<Rightarrow> string list \<Rightarrow> action list \<times> exn option" where
  "send_chunks e ch [] = ([], None)"
| "send_chunks e ch (c # cs) =
     (case send_raises e ch c of
        Some x \<Rightarrow> ([], Some x)
      | None \<Rightarrow> (case send_chunks e ch cs of (tr, r) \<Rightarrow> (Send ch c # tr, r)))"

definition send_large_message :: "env \<Rightarrow> channel_id \<Rightarrow> string \<Rightarrow> action list \<times> exn option" where
  "send_large_message e ch text =
     (case split_message text 2000 of
        Inl x \<Rightarrow> ([], Some x)
      | Inr chunks \<Rightarrow> send_chunks e ch chunks)"

section \<open>The cooldown timer: \<open>cooldown_user\<close>\<close>

text \<open>
  \<^verbatim>\<open>await asyncio.sleep(COOLDOWN_TIME); user_cooldown[user_id] = 0\<close>

  \<open>cooldown_user\<close> is the coroutine as \<^verbatim>\<open>create_task\<close> receives it;
  \<open>after_seconds d\<close> is what it has done once \<open>d\<close> seconds have passed: nothing while
  it sleeps, and the reset, after which it is finished, once the sleep is over.
\<close>

definition cooldown_user :: "config \<Rightarrow> user_id \<Rightarrow> sleeper" where
  "cooldown_user cfg uid = \<lparr>sleep_left = COOLDOWN_TIME cfg, sleeper_user = uid\<rparr>"

definition after_seconds :: "int \<Rightarrow> sleeper \<Rightarrow> bot_state \<Rightarrow> sleeper option \<times> bot_state" where
  "after_seconds d t st =
     (if sleep_left t \<le> d
      then (None, st\<lparr>user_cooldown := (user_cooldown st)(sleeper_user t := 0)\<rparr>)
      else (Some (t\<lparr>sleep_left := sleep_left t - d\<rparr>), st))"

section \<open>The orchestrator: \<open>chat_with_openai\<close>\<close>

text \<open>
  Lines 92-95: the system message, then one entry per cached turn, appended by the loop
  in the deque's order, then the new user turn.
\<close>

definition build_messages :: "config \<Rightarrow> turn list \<Rightarrow> string \<Rightarrow> turn list" where
  "build_messages cfg cache text =
     foldl (\<lambda>messages (r, c). messages @ [(r, c)])
       [(''system'', SYSTEM_MESSAGE cfg)] cache
     @ [(''user'', text)]"

text \<open>\<^verbatim>\<open>deque.popleft()\<close> raises \<open>IndexError\<close> on an empty deque.\<close>

definition popleft :: "'a list \<Rightarrow> exn + 'a list" where
  "popleft xs =
     (case xs of [] \<Rightarrow> Inl (Exception ''pop from an empty deque'') | _ # rest \<Rightarrow> Inr rest)"

text \<open>Lines 109-112: one \<open>popleft\<close> when the deque is at or above the cap, then two appends.\<close>

definition update_cache :: "config \<Rightarrow> turn list \<Rightarrow> string \<Rightarrow> string \<Rightarrow> exn + turn list" where
  "update_cache cfg cache user_text ai_text =
     (case (if MAX_CACHE cfg \<le> int (length cache) then popleft cache else Inr cache) of
        Inl x \<Rightarrow> Inl x
      | Inr kept \<Rightarrow> Inr ((kept @ [(''user'', user_text)]) @ [(''assistant'', ai_text)]))"

text \<open>
  How \<open>chat_with_openai\<close> ends: with the cooldown notice, with the reply sent and the
  state committed, with the exception caught and reported, or with an exception that
  leaves the function: one raised by a \<^verbatim>\<open>send\<close> outside the \<^verbatim>\<open>try\<close>, or one
  raised inside it that \<^verbatim>\<open>except Exception\<close> does not catch.
\<close>

datatype outcome = Cooldown_notice | Replied string | Failed exn | Propagated exn

fun propagated :: "outcome \<Rightarrow> bool" where
  "propagated (Propagated _) = True"
| "propagated _ = False"

text \<open>
  The body of the \<^verbatim>\<open>try\<close> (lines 99-116): its effects, and either the exception that
  ended it or the reply with the state it committed. When the call itself raises, line
  103 is not reached and the body has cancelled nothing. No statement after the first
  mutation of the state can raise, so an exception always leaves the state as it was.
\<close>

definition try_block ::
  "config \<Rightarrow> env \<Rightarrow> message \<Rightarrow> bot_state \<Rightarrow> turn list \<Rightarrow> action list \<times> (exn + string \<times> bot_state)" where
  "try_block cfg e m st messages =
     (let uid = author_id m; ch = channel_id m in
      case ChatCompletion_create e (OPENAI_MODEL cfg) messages of
        Raises x \<Rightarrow> ([], Inl x)
      | Unreadable x \<Rightarrow> ([Cancel_typing], Inl x)
      | Text ai_text \<Rightarrow>
          (case send_large_message e ch ai_text of
             (sent, Some x) \<Rightarrow> (Cancel_typing # sent, Inl x)
           | (sent, None) \<Rightarrow>
               (case update_cache cfg (user_message_cache st uid) (content m) ai_text of
                  Inl x \<Rightarrow> (Cancel_typing # sent, Inl x)
                | Inr cache' \<Rightarrow>
                    (Cancel_typing # sent @ [Create_task (Cooldown (cooldown_user cfg uid))],
                     Inr (ai_text,
                       st\<lparr>user_message_cache := (user_message_cache st)(uid := cache'),
                          user_cooldown := (user_cooldown st)(uid := COOLDOWN_TIME cfg)\<rparr>)))))"

definition cooldown_text :: string where
  "cooldown_text = ''Please wait a bit before chatting again!''"

definition chat_with_openai ::
  "config \<Rightarrow> env \<Rightarrow> message \<Rightarrow> bot_state \<Rightarrow> outcome \<times> action list \<times> bot_state" where
  "chat_with_openai cfg e m st =
     (let uid = author_id m; ch = channel_id m in
      if user_cooldown st uid \<noteq> 0 then
        (case send_raises e ch cooldown_text of
           Some x \<Rightarrow> (Propagated x, [], st)
         | None \<Rightarrow> (Cooldown_notice, [Send ch cooldown_text], st))
      else
        let messages = build_messages cfg (user_message_cache st uid) (content m);
            started = [Create_task (Keep_typing ch),
                       Completion_request (OPENAI_MODEL cfg) messages]
        in case try_block cfg e m st messages of
             (tr, Inr (ai_text, st')) \<Rightarrow> (Replied ai_text, started @ tr, st')
           | (tr, Inl x) \<Rightarrow>
               if \<not> is_Exception x then (Propagated x, started @ tr, st)
               else
                 (let handled = started @ tr @
                        [Cancel_typing, Log_error (''Error during OpenAI call: '' @ str_of x)];
                      notice = ''An error occurred: '' @ str_of x
                  in case send_raises e ch notice of
                       Some y \<Rightarrow> (Propagated y, handled, st)
                     | None \<Rightarrow> (Failed x, handled @ [Send ch notice], st)))"

section \<open>The event handler: \<open>on_message\<close>\<close>

text \<open>
  Line 60: \<^verbatim>\<open>message.reference and message.reference.resolved.author.id == bot.user.id\<close>.
  Only \<^verbatim>\<open>message.reference\<close> is tested; when the message replied to is not resolved
  or is deleted, reading \<^verbatim>\<open>.author\<close> raises \<open>AttributeError\<close>.
\<close>

definition replied_to_bot :: "config \<Rightarrow> message \<Rightarrow> exn + bool" where
  "replied_to_bot cfg m =
     (case reference m of
        None \<Rightarrow> Inr False
      | Some None \<Rightarrow> Inl (Exception ''NoneType object has no attribute author'')
      | Some (Some Deleted_message) \<Rightarrow>
          Inl (Exception ''DeletedReferencedMessage object has no attribute author'')
      | Some (Some (Message_of a)) \<Rightarrow> Inr (a = bot_user_id cfg))"

text \<open>
  Lines 59-65: whether the bot responds to a message of a user. Line 60 is evaluated
  before the test of line 65, so its exception ends the handler whatever the other
  disjuncts are.
\<close>

definition should_respond :: "config \<Rightarrow> env \<Rightarrow> message \<Rightarrow> bot_state \<Rightarrow> exn + bool" where
  "should_respond cfg e m st =
     (let mentioned = bot_user_id cfg \<in> set (mentions m) in
      case replied_to_bot cfg m of
        Inl x \<Rightarrow> Inl x
      | Inr replied \<Rightarrow>
          (let last_inter = user_last_interaction st (author_id m);
               within_time = (utcnow_route e - time last_inter \<le> timedelta_seconds 120);
               same_channel = (channel last_inter = Some (channel_id m))
           in Inr (mentioned \<or> replied \<or> (within_time \<and> same_channel))))"

text \<open>Lines 69-70: the condition under which the permission notice is sent.\<close>

definition permission_denied :: "config \<Rightarrow> env \<Rightarrow> message \<Rightarrow> bool" where
  "permission_denied cfg e m =
     (case guild_get_role m (ROLE_ID cfg) of
        None \<Rightarrow> True
      | Some role \<Rightarrow>
          role \<notin> set (author_roles m) \<and>
          \<not> list_ex (\<lambda>r. role_ge e r role) (author_roles m))"

definition permission_text :: string where
  "permission_text = ''Sorry, you don't have permission to interact with me!''"

text \<open>
  The path a message takes through \<open>on_message\<close>: dropped because a bot wrote it,
  dropped because the bot is not addressed, answered with the permission notice, passed
  to \<open>chat_with_openai\<close> (which returned), or ended by an exception nobody caught.
\<close>

datatype path = From_bot | Not_addressed | Permission_denied | Chat outcome | Uncaught exn

definition on_message ::
  "config \<Rightarrow> env \<Rightarrow> message \<Rightarrow> bot_state \<Rightarrow> path \<times> action list \<times> bot_state" where
  "on_message cfg e m st =
     (if author_bot m then (From_bot, [], st)
      else
        case should_respond cfg e m st of
          Inl x \<Rightarrow> (Uncaught x, [], st)
        | Inr respond \<Rightarrow>
            if \<not> respond then (Not_addressed, [], st)
            else if permission_denied cfg e m then
              (case send_raises e (channel_id m) permission_text of
                 Some x \<Rightarrow> (Uncaught x, [], st)
               | None \<Rightarrow> (Permission_denied, [Send (channel_id m) permission_text], st))
            else
              (case chat_with_openai cfg e m st of
                 (Propagated x, tr, st') \<Rightarrow> (Uncaught x, tr, st')
               | (oc, tr, st') \<Rightarrow>
                   (Chat oc, tr,
                    st'\<lparr>user_last_interaction := (user_last_interaction st')
                          (author_id m :=
                             \<lparr>time = utcnow_commit e, channel = Some (channel_id m)\<rparr>)\<rparr>)))"

section \<open>A concrete deployment\<close>

text \<open>
  The defaults of the source (\<open>MAX_CACHE = 5\<close>, \<open>COOLDOWN_TIME = 2\<close>), a user who
  holds the configured role and mentions the bot, the same mention written as a reply
  to a message that has since been deleted, a completion service that answers, one that
  is down, and one whose call is interrupted from the keyboard.
\<close>

definition cfg5 :: config where
  "cfg5 = \<lparr>OPENAI_MODEL = ''gpt-3.5-turbo-16k'', MAX_CACHE = 5, COOLDOWN_TIME = 2,
           ROLE_ID = 10, SYSTEM_MESSAGE = ''Be kind.'', bot_user_id = 99\<rparr>"

definition msg_hi :: message where
  "msg_hi = \<lparr>author_bot = False, author_id = 7, author_roles = [10], mentions = [99],
             reference = None, channel_id = 3, content = ''hi'',
             guild_get_role = (\<lambda>i. if i = 10 then Some 10 else None)\<rparr>"

definition msg_reply_deleted :: message where
  "msg_reply_deleted = msg_hi\<lparr>reference := Some (Some Deleted_message)\<rparr>"

definition msg_plain :: message where
  "msg_plain = msg_hi\<lparr>mentions := [], content := ''more''\<rparr>"

definition env_ok :: env where
  "env_ok = \<lparr>utcnow_route = 63000000000000000, utcnow_commit = 63000000001000000,
             role_ge = (\<lambda>r s. s \<le> r),
             ChatCompletion_create = (\<lambda>_ _. Text ''hello''),
             send_raises = (\<lambda>_ _. None)\<rparr>"

definition env_down :: env where
  "env_down = env_ok\<lparr>ChatCompletion_create := (\<lambda>_ _. Raises (Exception ''timeout''))\<rparr>"


definition four_turns :: "turn list" where
  "four_turns = [(''user'', ''a''), (''assistant'', ''b''), (''user'', ''c''), (''assistant'', ''d'')]"

definition st_four :: bot_state where
  "st_four = initial_state\<lparr>user_message_cache := (\<lambda>_. [])(7 := four_turns)\<rparr>"

text \<open>
  The user of \<open>msg_hi\<close> was last served, in the channel of \<open>msg_hi\<close>, the given
  number of seconds before the clock reading of \<open>env_ok\<close>.
\<close>

definition st_seen :: "int \<Rightarrow> bot_state" where
  "st_seen s = initial_state\<lparr>user_last_interaction :=
     (\<lambda>_. \<lparr>time = datetime_min, channel = None\<rparr>)
       (7 := \<lparr>time = utcnow_route env_ok - timedelta_seconds s, channel = Some 3\<rparr>)\<rparr>"

text \<open>The user of \<open>msg_hi\<close> is in cooldown.\<close>

definition st_cooling :: bot_state where
  "st_cooling = initial_state\<lparr>user_cooldown := (\<lambda>_. 0)(7 := 2)\<rparr>"

text \<open>
  The same deployment with \<^verbatim>\<open>COOLDOWN_TIME=0\<close>, and with \<^verbatim>\<open>COOLDOWN_TIME=-1\<close>, in
  the environment.
\<close>

definition cfg_no_cooldown :: config where
  "cfg_no_cooldown = cfg5\<lparr>COOLDOWN_TIME := 0\<rparr>"

definition cfg_negative :: config where
  "cfg_negative = cfg5\<lparr>COOLDOWN_TIME := - 1\<rparr>"

definition st_five :: bot_state where
  "st_five = initial_state\<lparr>user_message_cache := (\<lambda>_. [])(7 := four_turns @ [(''user'', ''e'')])\<rparr>"

text \<open>
  A scenario step: one message is handled, and then the cooldown timer of its author
  runs out before the next message arrives.
\<close>

definition exchange :: "config \<Rightarrow> env \<Rightarrow> message \<Rightarrow> bot_state \<Rightarrow> bot_state" where
  "exchange cfg e m st =
     snd (after_seconds (COOLDOWN_TIME cfg) (cooldown_user cfg (author_id m))
            (snd (snd (on_message cfg e m st))))"

section \<open>Properties of the segmenter\<close>

lemma py_slice_chunk:
  "0 < step \<Longrightarrow> 0 \<le> i \<Longrightarrow> py_slice xs i (i + step) = take (nat step) (drop (nat i) xs)"
  by (auto simp: py_slice_def slice_bound_def Let_def min_def nat_add_distrib)

lemma range_up_bounds: "j \<in> set (range_up i stop step) \<Longrightarrow> i \<le> j \<and> j < stop"
proof (induction i stop step rule: range_up.induct)
  case (1 i stop step)
  show ?case
  proof (cases "0 < step \<and> i < stop")
    case True
    from 1(2) have "j = i \<or> j \<in> set (range_up (i + step) stop step)"
      by (subst (asm) range_up.simps) (simp add: True)
    with 1(1) True show ?thesis by auto
  next
    case False
    with 1(2) show ?thesis by (subst (asm) range_up.simps) simp
  qed
qed

lemma range_up_length:
  "0 < step \<Longrightarrow> int (length (range_up i stop step)) = max 0 (- ((i - stop) div step))"
proof (induction i stop step rule: range_up.induct)
  case (1 i stop step)
  show ?case
  proof (cases "i < stop")
    case True
    have "(i + step - stop) div step = (i - stop + step) div step"
      by (simp add: algebra_simps)
    also have "\<dots> = (i - stop) div step + 1"
      using 1(2) by simp
    finally have shifted: "(i + step - stop) div step = (i - stop) div step + 1" .
    have negative: "(i - stop) div step < 0"
      using True 1(2) by (simp add: pos_imp_zdiv_neg_iff)
    have "int (length (range_up i stop step)) = 1 + int (length (range_up (i + step) stop step))"
      using True 1(2) by (subst range_up.simps) simp
    also have "\<dots> = 1 + max 0 (- ((i + step - stop) div step))"
      using 1 True by simp
    also have "\<dots> = max 0 (- ((i - stop) div step))"
      using shifted negative by simp
    finally show ?thesis .
  next
    case False
    then have "0 \<le> (i - stop) div step"
      using 1(2) by (simp add: pos_imp_zdiv_nonneg_iff)
    moreover have "range_up i stop step = []"
      using False by (subst range_up.simps) simp
    ultimately show ?thesis by simp
  qed
qed

lemma concat_range_up:
  "0 < step \<Longrightarrow> 0 \<le> i \<Longrightarrow>
   concat (map (\<lambda>j. take (nat step) (drop (nat j) xs)) (range_up i (int (length xs)) step))
     = drop (nat i) xs"
proof (induction i "int (length xs)" step rule: range_up.induct)
  case (1 i step)
  show ?case
  proof (cases "i < int (length xs)")
    case True
    have next_start: "nat (i + step) = nat step + nat i"
      using 1 by (simp add: nat_add_distrib)
    have "concat (map (\<lambda>j. take (nat step) (drop (nat j) xs)) (range_up i (int (length xs)) step))
        = take (nat step) (drop (nat i) xs) @ drop (nat (i + step)) xs"
      using 1 True by (subst range_up.simps) simp
    also have "\<dots> = drop (nat i) xs"
      unfolding next_start by (simp add: drop_drop[symmetric] del: drop_drop)
    finally show ?thesis .
  next
    case False
    then have "range_up i (int (length xs)) step = []"
      by (subst range_up.simps) simp
    then show ?thesis using False 1 by simp
  qed
qed

lemma split_message_positive:
  assumes "0 < limit"
  shows "split_message str limit =
     Inr (map (\<lambda>j. take (nat limit) (drop (nat j) str)) (range_up 0 (int (length str)) limit))"
proof -
  have "map (\<lambda>i. py_slice str i (i + limit)) (range_up 0 (int (length str)) limit)
      = map (\<lambda>j. take (nat limit) (drop (nat j) str)) (range_up 0 (int (length str)) limit)"
    using assms by (intro map_cong refl py_slice_chunk) (auto dest: range_up_bounds)
  then show ?thesis
    using assms by (simp add: split_message_def py_range_def)
qed

lemma split_message_nothing: "limit \<noteq> 0 \<Longrightarrow> split_message [] limit = Inr []"
  by (simp add: split_message_def py_range_def range_up.simps range_down.simps)

text \<open>
  C7. For a positive limit, \<open>split_message\<close> returns (it does not raise)
  \<open>ceil(L / limit)\<close> chunks, where \<open>L\<close> is the length of the text; no chunk is empty,
  none is longer than the limit, and the chunks concatenated in order are the text. The
  statement holds for the empty text too, with zero chunks.
\<close>

theorem split_message_chunks:
  assumes "0 < limit"
  shows "\<exists>chunks. split_message str limit = Inr chunks \<and>
           int (length chunks) = \<lceil>real (length str) / real_of_int limit\<rceil> \<and>
           (\<forall>c \<in> set chunks. c \<noteq> [] \<and> int (length c) \<le> limit) \<and>
           concat chunks = str"
proof -
  let ?starts = "range_up 0 (int (length str)) limit"
  let ?chunks = "map (\<lambda>j. take (nat limit) (drop (nat j) str)) ?starts"
  have returned: "split_message str limit = Inr ?chunks"
    using assms by (rule split_message_positive)
  have "\<lceil>real (length str) / real_of_int limit\<rceil> = - ((- int (length str)) div limit)"
    using ceiling_divide_eq_div [of "int (length str)" limit] by simp
  moreover have "0 \<le> - ((- int (length str)) div limit)"
    using assms by (simp add: div_nonpos_pos_le0)
  ultimately have count: "int (length ?chunks) = \<lceil>real (length str) / real_of_int limit\<rceil>"
    using range_up_length [OF assms, of 0 "int (length str)"] by simp
  have each: "\<forall>c \<in> set ?chunks. c \<noteq> [] \<and> int (length c) \<le> limit"
  proof
    fix c assume "c \<in> set ?chunks"
    then obtain j where j: "j \<in> set ?starts" and c: "c = take (nat limit) (drop (nat j) str)"
      by auto
    from range_up_bounds [OF j] have "0 \<le> j" and "j < int (length str)" by simp_all
    then have "nat j < length str" by simp
    with assms c show "c \<noteq> [] \<and> int (length c) \<le> limit" by auto
  qed
  have whole: "concat ?chunks = str"
    using concat_range_up [OF assms, of 0 str] by simp
  from returned count each whole show ?thesis by blast
qed

theorem split_message_chunks_witness:
  "(0::int) < 3 \<and> split_message ''abcdefg'' 3 = Inr [''abc'', ''def'', ''g''] \<and>
   \<lceil>real (length ''abcdefg'') / real_of_int 3\<rceil> = 3"
proof -
  have starts: "range_up 0 7 3 = [0, 3, 6]"
    by (simp add: range_up.simps)
  have "split_message ''abcdefg'' 3 = Inr [''abc'', ''def'', ''g'']"
    by (simp add: split_message_def py_range_def starts py_slice_def slice_bound_def)
  moreover have "\<lceil>real (length ''abcdefg'') / real_of_int 3\<rceil> = 3"
    using split_message_chunks [of 3 "''abcdefg''"] calculation by auto
  ultimately show ?thesis by simp
qed

text \<open>
  C10. For the empty text and any limit the segmenter accepts (any but zero, for which
  \<open>range\<close> raises), \<open>split_message\<close> returns no chunk at all, so
  \<open>send_large_message\<close>, which uses the limit 2000, sends nothing.
\<close>

theorem split_message_empty:
  "limit \<noteq> 0 \<Longrightarrow>
   split_message ([] :: 'a list) limit = Inr [] \<and> send_large_message e ch [] = ([], None)"
  by (simp add: split_message_nothing send_large_message_def)

theorem split_message_empty_witness:
  "(2000::int) \<noteq> 0 \<and> split_message ('''' :: string) 2000 = Inr [] \<and>
   send_large_message env_ok 3 '''' = ([], None)"
  using split_message_empty [where ?'a = char, of 2000 env_ok 3] by simp

section \<open>Properties of the orchestrator\<close>

lemma foldl_append_turns:
  "foldl (\<lambda>messages (r, c). messages @ [(r, c)]) acc cache = acc @ cache"
  by (induction cache arbitrary: acc) auto

lemma build_messages_eq:
  "build_messages cfg cache str = (''system'', SYSTEM_MESSAGE cfg) # cache @ [(''user'', str)]"
  by (simp add: build_messages_def foldl_append_turns)

lemma send_chunks_no_request:
  "send_chunks e ch cs = (sent, r) \<Longrightarrow> filter is_request sent = []"
  by (induction cs arbitrary: sent r) (auto split: option.splits prod.splits)

lemma send_large_message_no_request:
  "send_large_message e ch str = (sent, r) \<Longrightarrow> filter is_request sent = []"
  by (auto simp: send_large_message_def split: sum.splits dest: send_chunks_no_request)



lemma chat_cooldown_active:
  "user_cooldown st (author_id m) \<noteq> 0 \<Longrightarrow>
   chat_with_openai cfg e m st =
     (case send_raises e (channel_id m) cooldown_text of
        Some x \<Rightarrow> (Propagated x, [], st)
      | None \<Rightarrow> (Cooldown_notice, [Send (channel_id m) cooldown_text], st))"
  by (simp add: chat_with_openai_def Let_def)

lemma try_block_no_request: "filter is_request (fst (try_block cfg e m st ms)) = []"
  by (auto simp: try_block_def Let_def send_large_message_no_request
      split: completion.splits prod.splits option.splits sum.splits)

lemma chat_admitted_requests:
  "user_cooldown st (author_id m) = 0 \<Longrightarrow>
   filter is_request (fst (snd (chat_with_openai cfg e m st))) =
     [Completion_request (OPENAI_MODEL cfg)
        (build_messages cfg (user_message_cache st (author_id m)) (content m))]"
  using try_block_no_request
    [of cfg e m st "build_messages cfg (user_message_cache st (author_id m)) (content m)"]
  by (auto simp: chat_with_openai_def Let_def split: prod.splits option.splits sum.splits if_splits)




lemma update_cache_result:
  "update_cache cfg h u a = Inr c \<Longrightarrow>
   c = (if MAX_CACHE cfg \<le> int (length h) then drop 1 h else h) @ [(''user'', u), (''assistant'', a)] \<and>
   \<not> (MAX_CACHE cfg \<le> int (length h) \<and> h = [])"
  by (auto simp: update_cache_def popleft_def drop_Suc split: if_splits list.splits)

lemma update_cache_raises:
  "(\<exists>x. update_cache cfg h u a = Inl x) \<longleftrightarrow> MAX_CACHE cfg \<le> int (length h) \<and> h = []"
  by (auto simp: update_cache_def popleft_def split: if_splits list.splits)

lemma chat_replied_iff:
  "fst (chat_with_openai cfg e m st) = Replied t \<longleftrightarrow>
     user_cooldown st (author_id m) = 0 \<and>
     ChatCompletion_create e (OPENAI_MODEL cfg)
       (build_messages cfg (user_message_cache st (author_id m)) (content m)) = Text t \<and>
     snd (send_large_message e (channel_id m) t) = None \<and>
     \<not> (MAX_CACHE cfg \<le> int (length (user_message_cache st (author_id m))) \<and>
        user_message_cache st (author_id m) = [])"
  using update_cache_raises [of cfg "user_message_cache st (author_id m)" "content m" t]
  by (auto simp: chat_with_openai_def try_block_def Let_def
      split: completion.splits prod.splits option.splits sum.splits)

lemma chat_replied_state:
  "fst (chat_with_openai cfg e m st) = Replied t \<Longrightarrow>
   \<exists>c. update_cache cfg (user_message_cache st (author_id m)) (content m) t = Inr c \<and>
       snd (snd (chat_with_openai cfg e m st)) =
         st\<lparr>user_message_cache := (user_message_cache st)(author_id m := c),
            user_cooldown := (user_cooldown st)(author_id m := COOLDOWN_TIME cfg)\<rparr> \<and>
       Create_task (Cooldown (cooldown_user cfg (author_id m))) \<in> set (fst (snd (chat_with_openai cfg e m st)))"
  by (auto simp: chat_with_openai_def try_block_def Let_def
      split: completion.splits prod.splits option.splits sum.splits if_splits)

lemma chat_other_state:
  "\<forall>t. fst (chat_with_openai cfg e m st) \<noteq> Replied t \<Longrightarrow>
   snd (snd (chat_with_openai cfg e m st)) = st"
  by (auto simp: chat_with_openai_def try_block_def Let_def
      split: completion.splits prod.splits option.splits sum.splits if_splits)

lemma chat_last_interaction:
  "user_last_interaction (snd (snd (chat_with_openai cfg e m st))) = user_last_interaction st"
  by (auto simp: chat_with_openai_def try_block_def Let_def
      split: completion.splits prod.splits option.splits sum.splits if_splits)

lemma split_hello: "split_message ''hello'' 2000 = Inr [''hello'']"
  by (simp add: split_message_def py_range_def range_up.simps py_slice_def slice_bound_def)

lemma send_hello: "send_large_message env_ok ch ''hello'' = ([Send ch ''hello''], None)"
  by (simp add: send_large_message_def split_hello env_ok_def)

text \<open>
  What a committed exchange does to the length of the cache: one more turn when the
  cache was at or above the cap, two more otherwise. Nothing brings it back to the cap.
\<close>

lemma reply_cache_length:
  assumes "fst (chat_with_openai cfg e m st) = Replied t"
  shows "length (user_message_cache (snd (snd (chat_with_openai cfg e m st))) (author_id m)) =
     length (user_message_cache st (author_id m)) +
       (if MAX_CACHE cfg \<le> int (length (user_message_cache st (author_id m))) then 1 else 2)"
proof -
  from chat_replied_state [OF assms] obtain c where
    c: "update_cache cfg (user_message_cache st (author_id m)) (content m) t = Inr c" and
    committed: "user_message_cache (snd (snd (chat_with_openai cfg e m st))) (author_id m) = c"
    by auto
  from update_cache_result [OF c] show ?thesis
    unfolding committed by (cases "user_message_cache st (author_id m)") auto
qed

text \<open>
  C1. The cache of a user is meant to hold at most \<open>MAX_CACHE\<close> turns. With the
  default cap of 5, three exchanges of one user, each after the cooldown of the one
  before has run out, leave 2, 4 and then 6 turns in the cache, and a fourth leaves 7:
  one turn is dropped where two are added.
\<close>

theorem cache_exceeds_MAX_CACHE:
  "MAX_CACHE cfg5 = 5 \<and>
   map (\<lambda>st. length (user_message_cache st 7))
     [exchange cfg5 env_ok msg_hi initial_state,
      exchange cfg5 env_ok msg_hi (exchange cfg5 env_ok msg_hi initial_state),
      exchange cfg5 env_ok msg_hi
        (exchange cfg5 env_ok msg_hi (exchange cfg5 env_ok msg_hi initial_state)),
      exchange cfg5 env_ok msg_hi
        (exchange cfg5 env_ok msg_hi
          (exchange cfg5 env_ok msg_hi (exchange cfg5 env_ok msg_hi initial_state)))]
     = [2, 4, 6, 7]"
  by code_simp

text \<open>
  C6. An exchange succeeds (the reply is sent and the state committed) exactly when the
  user is not in cooldown, the completion call returns a text, every chunk of it is
  sent, and \<open>popleft\<close> is not asked to pop from an empty deque. It then leaves in the
  user's cache the old turns, without the oldest one if there were \<open>MAX_CACHE\<close> or more
  of them, followed by the new user turn and then the new assistant turn; the caches of
  the other users are as they were.
\<close>

theorem reply_updates_cache:
  fixes cfg e m st t
  defines "uid \<equiv> author_id m"
  defines "h \<equiv> user_message_cache st uid"
  defines "st' \<equiv> snd (snd (chat_with_openai cfg e m st))"
  shows "(fst (chat_with_openai cfg e m st) = Replied t \<longleftrightarrow>
            user_cooldown st uid = 0 \<and>
            ChatCompletion_create e (OPENAI_MODEL cfg) (build_messages cfg h (content m)) = Text t \<and>
            snd (send_large_message e (channel_id m) t) = None \<and>
            \<not> (MAX_CACHE cfg \<le> int (length h) \<and> h = []))
       \<and> (fst (chat_with_openai cfg e m st) = Replied t \<longrightarrow>
            user_message_cache st' uid =
              (if MAX_CACHE cfg \<le> int (length h) then drop 1 h else h)
                @ [(''user'', content m), (''assistant'', t)] \<and>
            (\<forall>u. u \<noteq> uid \<longrightarrow> user_message_cache st' u = user_message_cache st u))"
proof (intro conjI impI)
  show "fst (chat_with_openai cfg e m st) = Replied t \<longleftrightarrow>
            user_cooldown st uid = 0 \<and>
            ChatCompletion_create e (OPENAI_MODEL cfg) (build_messages cfg h (content m)) = Text t \<and>
            snd (send_large_message e (channel_id m) t) = None \<and>
            \<not> (MAX_CACHE cfg \<le> int (length h) \<and> h = [])"
    unfolding uid_def h_def by (rule chat_replied_iff)
next
  assume replied: "fst (chat_with_openai cfg e m st) = Replied t"
  from chat_replied_state [OF replied] obtain c where
    c: "update_cache cfg h (content m) t = Inr c" and
    committed: "st' = st\<lparr>user_message_cache := (user_message_cache st)(uid := c),
            user_cooldown := (user_cooldown st)(uid := COOLDOWN_TIME cfg)\<rparr>"
    unfolding uid_def h_def st'_def by blast
  from update_cache_result [OF c] committed
  show "user_message_cache st' uid =
      (if MAX_CACHE cfg \<le> int (length h) then drop 1 h else h)
        @ [(''user'', content m), (''assistant'', t)]"
    by simp
  from committed show "\<forall>u. u \<noteq> uid \<longrightarrow> user_message_cache st' u = user_message_cache st u"
    by simp
qed

theorem reply_updates_cache_witness:
  "fst (chat_with_openai cfg5 env_ok msg_hi st_five) = Replied ''hello'' \<and>
   int (length (user_message_cache st_five 7)) = MAX_CACHE cfg5 \<and>
   user_message_cache (snd (snd (chat_with_openai cfg5 env_ok msg_hi st_five))) 7 =
     [(''assistant'', ''b''), (''user'', ''c''), (''assistant'', ''d''), (''user'', ''e''),
      (''user'', ''hi''), (''assistant'', ''hello'')]"
  using reply_updates_cache [of cfg5 env_ok msg_hi st_five "''hello''"]
  by (simp add: cfg5_def env_ok_def msg_hi_def st_five_def initial_state_def four_turns_def
      send_hello [unfolded env_ok_def])

text \<open>
  C8. A message that is admitted (its author is not in cooldown) causes exactly one
  request to the completion service, and the messages of that request are the system
  message, then the cached turns of the author in the order of the cache, then the new
  user turn. A message that is not admitted causes no request.
\<close>

theorem request_composition:
  "filter is_request (fst (snd (chat_with_openai cfg e m st))) =
     (if user_cooldown st (author_id m) = 0
      then [Completion_request (OPENAI_MODEL cfg)
              ((''system'', SYSTEM_MESSAGE cfg) # user_message_cache st (author_id m)
                 @ [(''user'', content m)])]
      else [])"
proof (cases "user_cooldown st (author_id m) = 0")
  case True
  then show ?thesis
    by (simp add: chat_admitted_requests build_messages_eq)
next
  case False
  then show ?thesis
    by (simp add: chat_cooldown_active split: option.splits)
qed

theorem request_composition_witness:
  "filter is_request (fst (snd (chat_with_openai cfg5 env_ok msg_hi st_four))) =
     [Completion_request ''gpt-3.5-turbo-16k''
        [(''system'', ''Be kind.''), (''user'', ''a''), (''assistant'', ''b''),
         (''user'', ''c''), (''assistant'', ''d''), (''user'', ''hi'')]]"
  using request_composition [of cfg5 env_ok msg_hi st_four]
  by (simp add: cfg5_def msg_hi_def st_four_def initial_state_def four_turns_def)

section \<open>Properties of the event handler\<close>

lemma should_respond_iff:
  "should_respond cfg e m st =
     (case replied_to_bot cfg m of
        Inl x \<Rightarrow> Inl x
      | Inr replied \<Rightarrow>
          Inr (bot_user_id cfg \<in> set (mentions m) \<or> replied \<or>
               (utcnow_route e - time (user_last_interaction st (author_id m))
                  \<le> timedelta_seconds 120 \<and>
                channel (user_last_interaction st (author_id m)) = Some (channel_id m))))"
  by (simp add: should_respond_def Let_def split: sum.splits)

lemma should_respond_mentioned:
  "reference m = None \<Longrightarrow> bot_user_id cfg \<in> set (mentions m) \<Longrightarrow>
   should_respond cfg e m st = Inr True"
  by (simp add: should_respond_iff replied_to_bot_def)

lemma should_respond_cong:
  "user_last_interaction st2 = user_last_interaction st1 \<Longrightarrow>
   should_respond cfg e m st2 = should_respond cfg e m st1"
  by (simp add: should_respond_iff split: sum.splits)

lemma on_message_chat:
  assumes "\<not> author_bot m" "should_respond cfg e m st = Inr True" "\<not> permission_denied cfg e m"
  shows "fst (snd (on_message cfg e m st)) = fst (snd (chat_with_openai cfg e m st))"
    and "fst (on_message cfg e m st) =
           (case fst (chat_with_openai cfg e m st) of Propagated x \<Rightarrow> Uncaught x | oc \<Rightarrow> Chat oc)"
    and "snd (snd (on_message cfg e m st)) =
           (if propagated (fst (chat_with_openai cfg e m st))
            then snd (snd (chat_with_openai cfg e m st))
            else snd (snd (chat_with_openai cfg e m st))
                   \<lparr>user_last_interaction :=
                      (user_last_interaction (snd (snd (chat_with_openai cfg e m st))))
                      (author_id m := \<lparr>time = utcnow_commit e, channel = Some (channel_id m)\<rparr>)\<rparr>)"
proof -
  obtain oc tr st' where c: "chat_with_openai cfg e m st = (oc, tr, st')"
    by (cases "chat_with_openai cfg e m st")
  with assms show
    "fst (snd (on_message cfg e m st)) = fst (snd (chat_with_openai cfg e m st))"
    "fst (on_message cfg e m st) =
           (case fst (chat_with_openai cfg e m st) of Propagated x \<Rightarrow> Uncaught x | oc \<Rightarrow> Chat oc)"
    "snd (snd (on_message cfg e m st)) =
           (if propagated (fst (chat_with_openai cfg e m st))
            then snd (snd (chat_with_openai cfg e m st))
            else snd (snd (chat_with_openai cfg e m st))
                   \<lparr>user_last_interaction :=
                      (user_last_interaction (snd (snd (chat_with_openai cfg e m st))))
                      (author_id m := \<lparr>time = utcnow_commit e, channel = Some (channel_id m)\<rparr>)\<rparr>)"
    by (cases oc; simp add: on_message_def)+
qed

lemma on_message_not_chat:
  assumes "author_bot m \<or> should_respond cfg e m st \<noteq> Inr True \<or> permission_denied cfg e m"
  shows "snd (snd (on_message cfg e m st)) = st"
    and "fst (snd (on_message cfg e m st)) = [] \<or>
         fst (snd (on_message cfg e m st)) = [Send (channel_id m) permission_text]"
  using assms by (auto simp: on_message_def split: option.splits sum.splits)

text \<open>
  C2, as the code has it. The last interaction of the author is set to the second clock
  reading and the channel of the message exactly when \<open>on_message\<close> gets past its call
  of \<open>chat_with_openai\<close>: the message is not a bot's, the test of line 65 is reached and
  finds the bot addressed, permission is granted, and \<open>chat_with_openai\<close> returns. That
  is the case after a reply, after a failure that was caught and reported, and after a
  cooldown notice. In every other case no user's last interaction changes.
\<close>

theorem on_message_last_interaction:
  "user_last_interaction (snd (snd (on_message cfg e m st))) =
     (if \<not> author_bot m \<and> should_respond cfg e m st = Inr True \<and>
         \<not> permission_denied cfg e m \<and> \<not> propagated (fst (chat_with_openai cfg e m st))
      then (user_last_interaction st)
             (author_id m := \<lparr>time = utcnow_commit e, channel = Some (channel_id m)\<rparr>)
      else user_last_interaction st)"
proof (cases "author_bot m \<or> should_respond cfg e m st \<noteq> Inr True \<or> permission_denied cfg e m")
  case True
  then show ?thesis
    using on_message_not_chat(1) [OF True] by auto
next
  case False
  then have "\<not> author_bot m" "should_respond cfg e m st = Inr True" "\<not> permission_denied cfg e m"
    by simp_all
  from on_message_chat(3) [OF this] False show ?thesis
    by (simp add: chat_last_interaction)
qed

theorem on_message_last_interaction_witness:
  "fst (chat_with_openai cfg5 env_ok msg_hi initial_state) = Replied ''hello'' \<and>
   user_last_interaction (snd (snd (on_message cfg5 env_ok msg_hi initial_state))) 7 =
     \<lparr>time = utcnow_commit env_ok, channel = Some 3\<rparr> \<and>
   user_last_interaction (snd (snd (on_message cfg5 env_ok msg_plain initial_state))) 7 =
     \<lparr>time = datetime_min, channel = None\<rparr>"
proof -
  have replied: "fst (chat_with_openai cfg5 env_ok msg_hi initial_state) = Replied ''hello''"
    by (simp add: chat_replied_iff send_hello)
       (simp add: cfg5_def env_ok_def msg_hi_def initial_state_def)
  have addressed: "should_respond cfg5 env_ok msg_hi initial_state = Inr True"
    by (simp add: should_respond_mentioned cfg5_def msg_hi_def)
  have permitted: "\<not> permission_denied cfg5 env_ok msg_hi"
    by (simp add: permission_denied_def cfg5_def msg_hi_def)
  have ignored: "should_respond cfg5 env_ok msg_plain initial_state = Inr False"
    by (simp add: should_respond_iff replied_to_bot_def cfg5_def msg_plain_def msg_hi_def
        initial_state_def env_ok_def datetime_min_def timedelta_seconds_def)
  from replied addressed permitted ignored show ?thesis
    using on_message_last_interaction [of cfg5 env_ok msg_hi initial_state]
      on_message_last_interaction [of cfg5 env_ok msg_plain initial_state]
    by (simp add: msg_hi_def initial_state_def)
qed

text \<open>
  Two messages whose handling does not end in a reply and still moves the author's last
  interaction: one whose completion call raises, and one answered with the cooldown
  notice.
\<close>

theorem last_interaction_updated_on_failure:
  "fst (on_message cfg5 env_down msg_hi initial_state) = Chat (Failed (Exception ''timeout'')) \<and>
   user_last_interaction initial_state 7 = \<lparr>time = 0, channel = None\<rparr> \<and>
   user_last_interaction (snd (snd (on_message cfg5 env_down msg_hi initial_state))) 7 =
     \<lparr>time = 63000000001000000, channel = Some 3\<rparr> \<and>
   fst (on_message cfg5 env_ok msg_hi st_cooling) = Chat Cooldown_notice \<and>
   user_last_interaction st_cooling 7 = \<lparr>time = 0, channel = None\<rparr> \<and>
   user_last_interaction (snd (snd (on_message cfg5 env_ok msg_hi st_cooling))) 7 =
     \<lparr>time = 63000000001000000, channel = Some 3\<rparr>"
  by code_simp




text \<open>
  The decision of lines 59-65 for a message whose line 60 does not raise: the bot
  responds exactly when the message mentions the bot, or replies to a message of the
  bot, or the author's last interaction is in the channel of the message and at most 120
  seconds before the clock reading. A last interaction in the same channel 119 seconds
  ago is enough, one 121 seconds ago is not; a message of a user is dropped as not
  addressed exactly when the test fails.
\<close>

lemma should_respond_decision:
  fixes cfg e m st
  defines "li \<equiv> user_last_interaction st (author_id m)"
  defines "mentioned \<equiv> bot_user_id cfg \<in> set (mentions m)"
  assumes resolved: "replied_to_bot cfg m = Inr replied"
  shows "(should_respond cfg e m st =
            Inr (mentioned \<or> replied \<or>
                 (utcnow_route e - time li \<le> timedelta_seconds 120 \<and>
                  channel li = Some (channel_id m))))
       \<and> (mentioned \<or> replied \<longrightarrow> should_respond cfg e m st = Inr True)
       \<and> (channel li = Some (channel_id m) \<and>
            time li = utcnow_route e - timedelta_seconds 119 \<longrightarrow>
              should_respond cfg e m st = Inr True)
       \<and> (\<not> mentioned \<and> \<not> replied \<and>
            time li = utcnow_route e - timedelta_seconds 121 \<longrightarrow>
              should_respond cfg e m st = Inr False)
       \<and> (\<not> author_bot m \<longrightarrow>
            (fst (on_message cfg e m st) = Not_addressed \<longleftrightarrow>
             should_respond cfg e m st = Inr False))"
proof (intro conjI impI)
  show decision: "should_respond cfg e m st =
            Inr (mentioned \<or> replied \<or>
                 (utcnow_route e - time li \<le> timedelta_seconds 120 \<and>
                  channel li = Some (channel_id m)))"
    unfolding li_def mentioned_def by (simp add: should_respond_iff resolved)
  show "should_respond cfg e m st = Inr True" if "mentioned \<or> replied"
    using that decision by auto
  show "should_respond cfg e m st = Inr True"
    if "channel li = Some (channel_id m) \<and> time li = utcnow_route e - timedelta_seconds 119"
    using that decision by (simp add: timedelta_seconds_def)
  show "should_respond cfg e m st = Inr False"
    if "\<not> mentioned \<and> \<not> replied \<and> time li = utcnow_route e - timedelta_seconds 121"
    using that decision by (simp add: timedelta_seconds_def)
  show "fst (on_message cfg e m st) = Not_addressed \<longleftrightarrow> should_respond cfg e m st = Inr False"
    if "\<not> author_bot m"
  proof (cases "should_respond cfg e m st = Inr True")
    case False
    with that decision show ?thesis by (auto simp: on_message_def)
  next
    case True
    obtain oc tr st' where "chat_with_openai cfg e m st = (oc, tr, st')"
      by (cases "chat_with_openai cfg e m st")
    with that True show ?thesis
      by (cases oc) (simp_all add: on_message_def split: option.splits)
  qed
qed

text \<open>
  C3. A message that mentions the bot is to be answered whatever else holds of it. The
  mention \<open>msg_reply_deleted\<close> is written as a reply to a message that has been
  deleted: line 60 raises \<open>AttributeError\<close> before the test of line 65 is reached, so
  \<open>should_respond\<close> gives no decision and \<open>on_message\<close> ends with the exception,
  having sent nothing.
\<close>

theorem mention_replying_to_deleted_message_raises:
  "\<not> author_bot msg_reply_deleted \<and>
   bot_user_id cfg5 \<in> set (mentions msg_reply_deleted) \<and>
   should_respond cfg5 env_ok msg_reply_deleted initial_state =
     Inl (Exception ''DeletedReferencedMessage object has no attribute author'') \<and>
   fst (on_message cfg5 env_ok msg_reply_deleted initial_state) =
     Uncaught (Exception ''DeletedReferencedMessage object has no attribute author'') \<and>
   fst (snd (on_message cfg5 env_ok msg_reply_deleted initial_state)) = []"
  by (simp add: on_message_def should_respond_def replied_to_bot_def msg_reply_deleted_def
      msg_hi_def cfg5_def)

lemma chat_completion_fails:
  assumes "user_cooldown st (author_id m) = 0"
    and "\<not> is_text (ChatCompletion_create e (OPENAI_MODEL cfg)
           (build_messages cfg (user_message_cache st (author_id m)) (content m)))"
  shows "snd (snd (chat_with_openai cfg e m st)) = st"
    and "\<exists>x. fst (chat_with_openai cfg e m st) = Failed x \<or>
             fst (chat_with_openai cfg e m st) = Propagated x"
  using assms
  by (auto simp: chat_with_openai_def try_block_def Let_def
      split: completion.splits option.splits if_splits)

lemma chat_admitted_outcome:
  "user_cooldown st (author_id m) = 0 \<Longrightarrow> fst (chat_with_openai cfg e m st) \<noteq> Cooldown_notice"
  by (auto simp: chat_with_openai_def Let_def
      split: prod.splits option.splits sum.splits if_splits)

text \<open>
  C4. Take a message that reaches \<open>chat_with_openai\<close> with its author out of
  cooldown, and whose completion call raises or returns nothing readable. Its handling
  ends in the caught failure (or in an exception of the error notice), no user's cache
  and no user's cooldown has changed, and whatever message the same author sends next is
  not answered with the cooldown notice: \<open>chat_with_openai\<close> sends the completion
  request for it.
\<close>

theorem failed_completion_keeps_state:
  fixes cfg e m st e' m'
  defines "st' \<equiv> snd (snd (on_message cfg e m st))"
  assumes "\<not> author_bot m" and "should_respond cfg e m st = Inr True"
    and "\<not> permission_denied cfg e m"
    and "user_cooldown st (author_id m) = 0"
    and "\<not> is_text (ChatCompletion_create e (OPENAI_MODEL cfg)
           (build_messages cfg (user_message_cache st (author_id m)) (content m)))"
    and "author_id m' = author_id m"
  shows "user_message_cache st' = user_message_cache st \<and>
         user_cooldown st' = user_cooldown st \<and>
         (\<exists>x. fst (on_message cfg e m st) = Chat (Failed x) \<or>
              fst (on_message cfg e m st) = Uncaught x) \<and>
         fst (chat_with_openai cfg e' m' st') \<noteq> Cooldown_notice \<and>
         filter is_request (fst (snd (chat_with_openai cfg e' m' st'))) =
           [Completion_request (OPENAI_MODEL cfg)
              ((''system'', SYSTEM_MESSAGE cfg) # user_message_cache st (author_id m)
                 @ [(''user'', content m')])]"
proof -
  have kept: "snd (snd (chat_with_openai cfg e m st)) = st"
    using assms(5,6) by (rule chat_completion_fails(1))
  obtain x where x: "fst (chat_with_openai cfg e m st) = Failed x \<or>
      fst (chat_with_openai cfg e m st) = Propagated x"
    using chat_completion_fails(2) [OF assms(5,6)] by blast
  have cache: "user_message_cache st' = user_message_cache st"
    and cooldown: "user_cooldown st' = user_cooldown st"
    unfolding st'_def on_message_chat(3) [OF assms(2,3,4)] by (simp_all add: kept)
  have outcome: "fst (on_message cfg e m st) = Chat (Failed x) \<or>
      fst (on_message cfg e m st) = Uncaught x"
    using x unfolding on_message_chat(2) [OF assms(2,3,4)] by auto
  have admitted: "user_cooldown st' (author_id m') = 0"
    using assms(5,7) cooldown by simp
  have "filter is_request (fst (snd (chat_with_openai cfg e' m' st'))) =
      [Completion_request (OPENAI_MODEL cfg)
         ((''system'', SYSTEM_MESSAGE cfg) # user_message_cache st (author_id m)
            @ [(''user'', content m')])]"
    using admitted assms(7) cache by (simp add: chat_admitted_requests build_messages_eq)
  with cache cooldown outcome chat_admitted_outcome [OF admitted] show ?thesis
    by blast
qed

theorem failed_completion_keeps_state_witness:
  "fst (on_message cfg5 env_down msg_hi st_four) = Chat (Failed (Exception ''timeout'')) \<and>
   user_message_cache (snd (snd (on_message cfg5 env_down msg_hi st_four))) 7 = four_turns \<and>
   user_cooldown (snd (snd (on_message cfg5 env_down msg_hi st_four))) 7 = 0 \<and>
   fst (chat_with_openai cfg5 env_ok msg_plain (snd (snd (on_message cfg5 env_down msg_hi st_four))))
     = Replied ''hello''"
proof -
  have addressed: "should_respond cfg5 env_down msg_hi st_four = Inr True"
    by (simp add: should_respond_mentioned cfg5_def msg_hi_def)
  have permitted: "\<not> permission_denied cfg5 env_down msg_hi"
    by (simp add: permission_denied_def cfg5_def msg_hi_def)
  have failing: "\<not> is_text (ChatCompletion_create env_down (OPENAI_MODEL cfg5)
      (build_messages cfg5 (user_message_cache st_four (author_id msg_hi)) (content msg_hi)))"
    by (simp add: env_down_def env_ok_def)
  have facts: "\<not> author_bot msg_hi" "user_cooldown st_four (author_id msg_hi) = 0"
    "author_id msg_plain = author_id msg_hi"
    by (simp_all add: msg_hi_def msg_plain_def st_four_def initial_state_def)
  have outcome: "fst (on_message cfg5 env_down msg_hi st_four) = Chat (Failed (Exception ''timeout''))"
    by code_simp
  have next_one: "fst (chat_with_openai cfg5 env_ok msg_plain
      (snd (snd (on_message cfg5 env_down msg_hi st_four)))) = Replied ''hello''"
    by code_simp
  from failed_completion_keeps_state
    [OF facts(1) addressed permitted facts(2) failing facts(3), of env_ok]
    outcome next_one
  show ?thesis
    by (simp add: st_four_def initial_state_def msg_hi_def)
qed

lemma on_message_cooldown_active:
  assumes "\<not> author_bot m" and "should_respond cfg e m st = Inr True"
    and "\<not> permission_denied cfg e m" and "user_cooldown st (author_id m) \<noteq> 0"
  shows "on_message cfg e m st =
     (case send_raises e (channel_id m) cooldown_text of
        Some x \<Rightarrow> (Uncaught x, [], st)
      | None \<Rightarrow>
          (Chat Cooldown_notice, [Send (channel_id m) cooldown_text],
           st\<lparr>user_last_interaction := (user_last_interaction st)
                (author_id m := \<lparr>time = utcnow_commit e, channel = Some (channel_id m)\<rparr>)\<rparr>))"
  using assms by (simp add: on_message_def chat_cooldown_active split: option.splits)

text \<open>
  C5, as the code has it. Let a message be answered with a reply; the author's cooldown
  then holds the configured cooldown time and the timer task \<open>cooldown_user\<close> has been
  created. Let \<open>d\<close> seconds pass, and let a further message of the author (mention or
  not) then reach \<open>chat_with_openai\<close>. While \<open>d\<close> is less than the cooldown time,
  which takes a positive cooldown time, the timer has changed nothing and the message
  gets the cooldown notice and causes no completion request. Once \<open>d\<close> has reached the
  cooldown time, which for a cooldown time of zero or less is at once, the timer is
  finished, the author's cooldown is zero and the message is admitted: its completion
  request is sent.
\<close>

theorem cooldown_after_reply:
  fixes cfg e m st e' m' d t
  defines "uid \<equiv> author_id m"
  defines "st1 \<equiv> snd (snd (on_message cfg e m st))"
  defines "st2 \<equiv> snd (after_seconds d (cooldown_user cfg uid) st1)"
  assumes "fst (on_message cfg e m st) = Chat (Replied t)"
    and "0 \<le> d"
    and "author_id m' = uid" and "\<not> author_bot m'"
    and "should_respond cfg e' m' st1 = Inr True" and "\<not> permission_denied cfg e' m'"
  shows "user_cooldown st1 uid = COOLDOWN_TIME cfg \<and>
         Create_task (Cooldown (cooldown_user cfg uid)) \<in> set (fst (snd (on_message cfg e m st))) \<and>
         (d < COOLDOWN_TIME cfg \<longrightarrow>
            st2 = st1 \<and>
            on_message cfg e' m' st2 =
              (case send_raises e' (channel_id m') cooldown_text of
                 Some x \<Rightarrow> (Uncaught x, [], st1)
               | None \<Rightarrow>
                   (Chat Cooldown_notice, [Send (channel_id m') cooldown_text],
                    st1\<lparr>user_last_interaction := (user_last_interaction st1)
                          (uid := \<lparr>time = utcnow_commit e', channel = Some (channel_id m')\<rparr>)\<rparr>))) \<and>
         (COOLDOWN_TIME cfg \<le> d \<longrightarrow>
            fst (after_seconds d (cooldown_user cfg uid) st1) = None \<and>
            user_cooldown st2 uid = 0 \<and>
            filter is_request (fst (snd (on_message cfg e' m' st2))) =
              [Completion_request (OPENAI_MODEL cfg)
                 ((''system'', SYSTEM_MESSAGE cfg) # user_message_cache st1 uid
                    @ [(''user'', content m')])])"
proof -
  have handled: "\<not> author_bot m" "should_respond cfg e m st = Inr True" "\<not> permission_denied cfg e m"
    using assms(4) by (auto simp: on_message_def split: if_splits option.splits sum.splits)
  have replied: "fst (chat_with_openai cfg e m st) = Replied t"
    using assms(4) unfolding on_message_chat(2) [OF handled]
    by (cases "fst (chat_with_openai cfg e m st)") simp_all
  from chat_replied_state [OF replied] obtain c where
    committed: "snd (snd (chat_with_openai cfg e m st)) =
        st\<lparr>user_message_cache := (user_message_cache st)(uid := c),
           user_cooldown := (user_cooldown st)(uid := COOLDOWN_TIME cfg)\<rparr>"
    and timer: "Create_task (Cooldown (cooldown_user cfg uid)) \<in> set (fst (snd (chat_with_openai cfg e m st)))"
    unfolding uid_def by blast
  have armed: "user_cooldown st1 uid = COOLDOWN_TIME cfg"
    unfolding st1_def on_message_chat(3) [OF handled] by (simp add: replied committed)
  have created: "Create_task (Cooldown (cooldown_user cfg uid)) \<in> set (fst (snd (on_message cfg e m st)))"
    unfolding on_message_chat(1) [OF handled] by (rule timer)
  have suppressed: "st2 = st1 \<and>
            on_message cfg e' m' st2 =
              (case send_raises e' (channel_id m') cooldown_text of
                 Some x \<Rightarrow> (Uncaught x, [], st1)
               | None \<Rightarrow>
                   (Chat Cooldown_notice, [Send (channel_id m') cooldown_text],
                    st1\<lparr>user_last_interaction := (user_last_interaction st1)
                          (uid := \<lparr>time = utcnow_commit e', channel = Some (channel_id m')\<rparr>)\<rparr>))"
    if "d < COOLDOWN_TIME cfg"
  proof
    show sleeping: "st2 = st1"
      using that unfolding st2_def by (simp add: after_seconds_def cooldown_user_def)
    have "user_cooldown st1 (author_id m') \<noteq> 0"
      using armed assms(5,6) that by simp
    from on_message_cooldown_active [OF assms(7,8,9) this]
    show "on_message cfg e' m' st2 =
              (case send_raises e' (channel_id m') cooldown_text of
                 Some x \<Rightarrow> (Uncaught x, [], st1)
               | None \<Rightarrow>
                   (Chat Cooldown_notice, [Send (channel_id m') cooldown_text],
                    st1\<lparr>user_last_interaction := (user_last_interaction st1)
                          (uid := \<lparr>time = utcnow_commit e', channel = Some (channel_id m')\<rparr>)\<rparr>))"
      unfolding assms(6) sleeping .
  qed
  have expired: "fst (after_seconds d (cooldown_user cfg uid) st1) = None \<and>
            user_cooldown st2 uid = 0 \<and>
            filter is_request (fst (snd (on_message cfg e' m' st2))) =
              [Completion_request (OPENAI_MODEL cfg)
                 ((''system'', SYSTEM_MESSAGE cfg) # user_message_cache st1 uid
                    @ [(''user'', content m')])]"
    if "COOLDOWN_TIME cfg \<le> d"
  proof -
    have reset: "st2 = st1\<lparr>user_cooldown := (user_cooldown st1)(uid := 0)\<rparr>"
      and finished: "fst (after_seconds d (cooldown_user cfg uid) st1) = None"
      using that unfolding st2_def by (simp_all add: after_seconds_def cooldown_user_def)
    have addressed: "should_respond cfg e' m' st2 = Inr True"
      using assms(8) should_respond_cong [of st2 st1 cfg e' m'] by (simp add: reset)
    have "filter is_request (fst (snd (chat_with_openai cfg e' m' st2))) =
        [Completion_request (OPENAI_MODEL cfg)
           ((''system'', SYSTEM_MESSAGE cfg) # user_message_cache st1 uid @ [(''user'', content m')])]"
      using assms(6) by (simp add: chat_admitted_requests build_messages_eq reset)
    then show ?thesis
      unfolding on_message_chat(1) [OF assms(7) addressed assms(9)]
      using finished reset by simp
  qed
  from armed created suppressed expired show ?thesis
    by blast
qed

theorem cooldown_after_reply_witness:
  "fst (on_message cfg5 env_ok msg_hi initial_state) = Chat (Replied ''hello'') \<and>
   fst (on_message cfg5 env_ok msg_hi (snd (snd (on_message cfg5 env_ok msg_hi initial_state))))
     = Chat Cooldown_notice \<and>
   fst (snd (on_message cfg5 env_ok msg_hi (snd (snd (on_message cfg5 env_ok msg_hi initial_state)))))
     = [Send 3 cooldown_text] \<and>
   filter is_request (fst (snd (on_message cfg5 env_ok msg_hi
       (snd (after_seconds 2 (cooldown_user cfg5 7)
          (snd (snd (on_message cfg5 env_ok msg_hi initial_state)))))))) =
     [Completion_request ''gpt-3.5-turbo-16k''
        [(''system'', ''Be kind.''), (''user'', ''hi''), (''assistant'', ''hello''), (''user'', ''hi'')]]"
proof -
  define st1 where "st1 = snd (snd (on_message cfg5 env_ok msg_hi initial_state))"
  have replied: "fst (on_message cfg5 env_ok msg_hi initial_state) = Chat (Replied ''hello'')"
    by code_simp
  have cache: "user_message_cache st1 7 = [(''user'', ''hi''), (''assistant'', ''hello'')]"
    unfolding st1_def by code_simp
  have addressed: "should_respond cfg5 env_ok msg_hi st1 = Inr True"
    by (simp add: should_respond_mentioned cfg5_def msg_hi_def)
  have permitted: "\<not> permission_denied cfg5 env_ok msg_hi"
    by (simp add: permission_denied_def cfg5_def msg_hi_def)
  have facts: "author_id msg_hi = author_id msg_hi" "\<not> author_bot msg_hi"
    by (simp_all add: msg_hi_def)
  have known: "author_id msg_hi = 7" "channel_id msg_hi = 3" "content msg_hi = ''hi''"
    "send_raises env_ok 3 cooldown_text = None" "COOLDOWN_TIME cfg5 = 2"
    "OPENAI_MODEL cfg5 = ''gpt-3.5-turbo-16k''" "SYSTEM_MESSAGE cfg5 = ''Be kind.''"
    by (simp_all add: cfg5_def msg_hi_def env_ok_def)
  have at_once: "(0::int) \<le> 0" and later: "(0::int) \<le> 2"
    by simp_all
  note early = cooldown_after_reply
    [OF replied at_once facts addressed [unfolded st1_def] permitted, folded st1_def]
  note late = cooldown_after_reply
    [OF replied later facts addressed [unfolded st1_def] permitted, folded st1_def]
  have running: "(0::int) < COOLDOWN_TIME cfg5" and over: "COOLDOWN_TIME cfg5 \<le> 2"
    by (simp_all add: known)
  from early running have
    "snd (after_seconds 0 (cooldown_user cfg5 (author_id msg_hi)) st1) = st1 \<and>
     on_message cfg5 env_ok msg_hi
        (snd (after_seconds 0 (cooldown_user cfg5 (author_id msg_hi)) st1)) =
      (case send_raises env_ok (channel_id msg_hi) cooldown_text of
         Some x \<Rightarrow> (Uncaught x, [], st1)
       | None \<Rightarrow>
           (Chat Cooldown_notice, [Send (channel_id msg_hi) cooldown_text],
            st1\<lparr>user_last_interaction := (user_last_interaction st1)
                  (author_id msg_hi :=
                     \<lparr>time = utcnow_commit env_ok, channel = Some (channel_id msg_hi)\<rparr>)\<rparr>))"
    by blast
  then have "on_message cfg5 env_ok msg_hi st1 =
      (case send_raises env_ok (channel_id msg_hi) cooldown_text of
         Some x \<Rightarrow> (Uncaught x, [], st1)
       | None \<Rightarrow>
           (Chat Cooldown_notice, [Send (channel_id msg_hi) cooldown_text],
            st1\<lparr>user_last_interaction := (user_last_interaction st1)
                  (author_id msg_hi :=
                     \<lparr>time = utcnow_commit env_ok, channel = Some (channel_id msg_hi)\<rparr>)\<rparr>))"
    by (elim conjE) simp
  then have suppressed: "fst (on_message cfg5 env_ok msg_hi st1) = Chat Cooldown_notice"
    "fst (snd (on_message cfg5 env_ok msg_hi st1)) = [Send 3 cooldown_text]"
    by (simp_all add: known)
  from late over have "filter is_request (fst (snd (on_message cfg5 env_ok msg_hi
       (snd (after_seconds 2 (cooldown_user cfg5 (author_id msg_hi)) st1))))) =
     [Completion_request (OPENAI_MODEL cfg5)
        ((''system'', SYSTEM_MESSAGE cfg5) # user_message_cache st1 (author_id msg_hi)
           @ [(''user'', content msg_hi)])]"
    by blast
  then have admitted: "filter is_request (fst (snd (on_message cfg5 env_ok msg_hi
       (snd (after_seconds 2 (cooldown_user cfg5 7) st1))))) =
     [Completion_request ''gpt-3.5-turbo-16k''
        [(''system'', ''Be kind.''), (''user'', ''hi''), (''assistant'', ''hello''), (''user'', ''hi'')]]"
    by (simp add: known cache)
  from replied suppressed admitted show ?thesis
    unfolding st1_def by simp
qed

text \<open>
  With a cooldown time of zero the value stored at line 115 is falsy at line 79: the
  message that follows a reply at once is answered with a second reply. With a cooldown
  time of \<open>-1\<close> the stored value is truthy, but \<^verbatim>\<open>asyncio.sleep(-1)\<close> is over at
  once, and the next message is answered as well.
\<close>

theorem nonpositive_cooldown_not_suppressed:
  "fst (on_message cfg_no_cooldown env_ok msg_hi initial_state) = Chat (Replied ''hello'') \<and>
   fst (on_message cfg_no_cooldown env_ok msg_hi
          (snd (snd (on_message cfg_no_cooldown env_ok msg_hi initial_state))))
     = Chat (Replied ''hello'') \<and>
   filter is_request (fst (snd (on_message cfg_no_cooldown env_ok msg_hi
          (snd (snd (on_message cfg_no_cooldown env_ok msg_hi initial_state)))))) =
     [Completion_request ''gpt-3.5-turbo-16k''
        [(''system'', ''Be kind.''), (''user'', ''hi''), (''assistant'', ''hello''), (''user'', ''hi'')]] \<and>
   fst (on_message cfg_negative env_ok msg_hi initial_state) = Chat (Replied ''hello'') \<and>
   fst (on_message cfg_negative env_ok msg_hi
          (snd (after_seconds 0 (cooldown_user cfg_negative 7)
             (snd (snd (on_message cfg_negative env_ok msg_hi initial_state))))))
     = Chat (Replied ''hello'')"
  by code_simp

end
